theory Spec2Isabelle
  imports Main "HOL-Library.Word"
begin

unbundle bit_operations_syntax

section \<open>The blob log format and its sequential reader\<close>

text \<open>
  A shallow embedding of \<^verbatim>\<open>utilities/blob_db/blob_log_format.h\<close> and of the reader
  \<^verbatim>\<open>Reader::ReadHeader\<close> / \<^verbatim>\<open>Reader::ReadRecord\<close>. The reader's two functions are
  translated from their source text. What they call but the sources do not contain (the
  fixed-width codec, the status values, the sequential file, the checksum, the bodies of
  the format's encode and decode functions) is modelled from the specification, each such
  definition saying so.
\<close>

subsection \<open>Bytes, slices, statuses\<close>

type_synonym byte = "8 word"

text \<open>A \<^verbatim>\<open>Slice\<close> is modelled by the bytes it views; the storage behind it is not modelled.\<close>

type_synonym Slice = "byte list"

text \<open>
  Modelled from the spec: \<^verbatim>\<open>rocksdb::Status\<close> (rocksdb/status.h is not among the sources),
  with the error taxonomy of the specification.
\<close>

datatype Status =
    OK
  | IoError
  | EndOfLog
  | MalformedHeader
  | MalformedFooter
  | HeaderChecksumMismatch
  | PayloadChecksumMismatch
  | UnknownRecordType
  | UnknownSubtype

text \<open>
  What the C++ leaves undefined or aborts on is an outcome of its own:
  \<^item> \<open>AssertionFailed\<close>: an \<^verbatim>\<open>assert\<close> of the source does not hold;
  \<^item> \<open>DecodeBeyondBuffer\<close>: the fixed-width decoder is applied to a slice shorter than
    the width it reads (the codec's precondition is broken: the bytes it would read are
    not bytes of the slice).
\<close>

datatype fault = AssertionFailed | DecodeBeyondBuffer

subsection \<open>Binary codec\<close>

text \<open>
  Modelled from the spec: the fixed-width codec (util/coding.h is not among the sources):
  unsigned 32-bit and 64-bit integers in one fixed byte order (little-endian, least
  significant byte first). Decoding reads exactly the width; a slice shorter than the
  width is outside the decoder's precondition, which is the result \<open>None\<close>.
\<close>

fun le_bytes :: "nat \<Rightarrow> nat \<Rightarrow> byte list" where
  "le_bytes 0 v = []"
| "le_bytes (Suc k) v = of_nat (v mod 256) # le_bytes k (v div 256)"

fun le_value :: "byte list \<Rightarrow> nat" where
  "le_value [] = 0"
| "le_value (b # bs) = unat b + 256 * le_value bs"

definition EncodeFixed32 :: "32 word \<Rightarrow> byte list" where
  "EncodeFixed32 v = le_bytes (Suc (Suc (Suc (Suc 0)))) (unat v)"

definition EncodeFixed64 :: "64 word \<Rightarrow> byte list" where
  "EncodeFixed64 v = le_bytes (Suc (Suc (Suc (Suc (Suc (Suc (Suc (Suc 0)))))))) (unat v)"

text \<open>
  \<open>Fixed32_at i p\<close> and \<open>Fixed64_at i p\<close> read the field that starts at offset \<open>i\<close> of a
  slice whose length the caller has checked before.
\<close>

definition Fixed32_at :: "nat \<Rightarrow> Slice \<Rightarrow> 32 word" where
  "Fixed32_at i p = of_nat (le_value (take 4 (drop i p)))"

definition Fixed64_at :: "nat \<Rightarrow> Slice \<Rightarrow> 64 word" where
  "Fixed64_at i p = of_nat (le_value (take 8 (drop i p)))"

definition DecodeFixed32 :: "Slice \<Rightarrow> 32 word option" where
  "DecodeFixed32 p = (if length p < 4 then None else Some (Fixed32_at 0 p))"

definition DecodeFixed64 :: "Slice \<Rightarrow> 64 word option" where
  "DecodeFixed64 p = (if length p < 8 then None else Some (Fixed64_at 0 p))"

subsection \<open>BlobLogHeader\<close>

type_synonym ttlrange_t = "32 word \<times> 32 word"
type_synonym tsrange_t = "64 word \<times> 64 word"
type_synonym snrange_t = "64 word \<times> 64 word"

text \<open>
  The two \<^verbatim>\<open>unique_ptr\<close> members are null or own a range: an \<open>option\<close>. A member
  \<^verbatim>\<open>name_\<close> of the source is the field \<open>name\<close> here (an identifier cannot end in an
  underscore), prefixed where two classes share it.
\<close>

record BlobLogHeader =
  hdr_magic_number :: "32 word"
  ttl_guess :: "ttlrange_t option"
  ts_guess :: "tsrange_t option"

definition BlobLogHeader_kHeaderSize :: nat where
  "BlobLogHeader_kHeaderSize = 4 + 4 + 4 * 2 + 8 * 2"

definition HasTTL :: "BlobLogHeader \<Rightarrow> bool" where
  "HasTTL h = (ttl_guess h \<noteq> None)"

definition HasTimestamp :: "BlobLogHeader \<Rightarrow> bool" where
  "HasTimestamp h = (ts_guess h \<noteq> None)"

text \<open>
  Modelled from the spec: the presence flags word of header and footer (its bit
  assignment is in blob_log_format.cc, not among the sources): bit 0 says that the TTL
  range is present, bit 1 that the timestamp range is.
\<close>

definition presence_flags :: "bool \<Rightarrow> bool \<Rightarrow> 32 word" where
  "presence_flags has_ttl has_ts = (if has_ttl then 1 else 0) OR (if has_ts then 2 else 0)"

definition flag_has_ttl :: "32 word \<Rightarrow> bool" where
  "flag_has_ttl flags = (flags AND 1 \<noteq> 0)"

definition flag_has_ts :: "32 word \<Rightarrow> bool" where
  "flag_has_ts flags = (flags AND 2 \<noteq> 0)"

text \<open>
  Modelled from the spec: \<^verbatim>\<open>BlobLogHeader::EncodeTo\<close> (its body is in blob_log_format.cc,
  not among the sources): appends to \<open>dst\<close> the magic number, the flags, the TTL range
  (zero-filled if absent) and the timestamp range (zero-filled if absent), 32 bytes.
\<close>

definition BlobLogHeader_EncodeTo :: "BlobLogHeader \<Rightarrow> byte list \<Rightarrow> byte list" where
  "BlobLogHeader_EncodeTo h dst =
     (let ttl = (case ttl_guess h of None \<Rightarrow> (0, 0) | Some r \<Rightarrow> r);
          ts = (case ts_guess h of None \<Rightarrow> (0, 0) | Some r \<Rightarrow> r)
      in dst @ EncodeFixed32 (hdr_magic_number h)
             @ EncodeFixed32 (presence_flags (HasTTL h) (HasTimestamp h))
             @ EncodeFixed32 (fst ttl) @ EncodeFixed32 (snd ttl)
             @ EncodeFixed64 (fst ts) @ EncodeFixed64 (snd ts))"

text \<open>
  Modelled from the spec: \<^verbatim>\<open>BlobLogHeader::DecodeFrom\<close> (body not among the sources):
  fails with \<open>MalformedHeader\<close> when fewer than 32 bytes are available or the magic number
  is not the expected constant \<open>kMagicNumber\<close> (declared \<^verbatim>\<open>extern\<close>, its value is a
  parameter here); otherwise populates the optional ranges according to the flags and
  consumes exactly 32 bytes. The result is the status, the header and the rest of the
  input. The fields are read only after the length check.
\<close>

definition BlobLogHeader_DecodeFrom ::
  "32 word \<Rightarrow> BlobLogHeader \<Rightarrow> Slice \<Rightarrow> Status \<times> BlobLogHeader \<times> Slice" where
  "BlobLogHeader_DecodeFrom kMagicNumber h input =
     (if length input < BlobLogHeader_kHeaderSize then (MalformedHeader, h, input)
      else
        let magic = Fixed32_at 0 input;
            flags = Fixed32_at 4 input
        in if magic \<noteq> kMagicNumber then (MalformedHeader, h, input)
           else (OK,
                 \<lparr>hdr_magic_number = magic,
                  ttl_guess = (if flag_has_ttl flags
                               then Some (Fixed32_at 8 input, Fixed32_at 12 input) else None),
                  ts_guess = (if flag_has_ts flags
                              then Some (Fixed64_at 16 input, Fixed64_at 24 input) else None)\<rparr>,
                 drop BlobLogHeader_kHeaderSize input))"

subsection \<open>BlobLogFooter\<close>

record BlobLogFooter =
  ftr_magic_number :: "32 word"
  blob_count :: "64 word"
  ttl_range :: "ttlrange_t option"
  ts_range :: "tsrange_t option"
  sn_range :: snrange_t

definition BlobLogFooter_kFooterSize :: nat where
  "BlobLogFooter_kFooterSize = 4 + 4 + 8 + (4 * 2) + (8 * 2) + (8 * 2)"

text \<open>
  Modelled from the spec: \<^verbatim>\<open>BlobLogFooter::EncodeTo\<close> (body not among the sources): the
  magic number, the flags, the blob count, the TTL range (zero-filled if absent), the
  sequence number range and the timestamp range (zero-filled if absent), 56 bytes.
\<close>

definition BlobLogFooter_EncodeTo :: "BlobLogFooter \<Rightarrow> byte list \<Rightarrow> byte list" where
  "BlobLogFooter_EncodeTo ft dst =
     (let ttl = (case ttl_range ft of None \<Rightarrow> (0, 0) | Some r \<Rightarrow> r);
          ts = (case ts_range ft of None \<Rightarrow> (0, 0) | Some r \<Rightarrow> r)
      in dst @ EncodeFixed32 (ftr_magic_number ft)
             @ EncodeFixed32 (presence_flags (ttl_range ft \<noteq> None) (ts_range ft \<noteq> None))
             @ EncodeFixed64 (blob_count ft)
             @ EncodeFixed32 (fst ttl) @ EncodeFixed32 (snd ttl)
             @ EncodeFixed64 (fst (sn_range ft)) @ EncodeFixed64 (snd (sn_range ft))
             @ EncodeFixed64 (fst ts) @ EncodeFixed64 (snd ts))"

text \<open>
  Modelled from the spec: \<^verbatim>\<open>BlobLogFooter::DecodeFrom\<close> (body not among the sources):
  fails with \<open>MalformedFooter\<close> on insufficient length or magic mismatch (the footer's
  magic constant is a parameter); otherwise decodes the fields in the order of the layout.
\<close>

definition BlobLogFooter_DecodeFrom ::
  "32 word \<Rightarrow> BlobLogFooter \<Rightarrow> Slice \<Rightarrow> Status \<times> BlobLogFooter \<times> Slice" where
  "BlobLogFooter_DecodeFrom kFooterMagic ft input =
     (if length input < BlobLogFooter_kFooterSize then (MalformedFooter, ft, input)
      else
        let magic = Fixed32_at 0 input;
            flags = Fixed32_at 4 input
        in if magic \<noteq> kFooterMagic then (MalformedFooter, ft, input)
           else (OK,
                 \<lparr>ftr_magic_number = magic,
                  blob_count = Fixed64_at 8 input,
                  ttl_range = (if flag_has_ttl flags
                               then Some (Fixed32_at 16 input, Fixed32_at 20 input) else None),
                  ts_range = (if flag_has_ts flags
                              then Some (Fixed64_at 40 input, Fixed64_at 48 input) else None),
                  sn_range = (Fixed64_at 24 input, Fixed64_at 32 input)\<rparr>,
                 drop BlobLogFooter_kFooterSize input))"

subsection \<open>BlobLogRecord\<close>

text \<open>
  The enumerators of \<^verbatim>\<open>RecordType\<close> and \<^verbatim>\<open>RecordSubType\<close>, as the bytes they are.
\<close>

definition kFullType :: byte where "kFullType = 0"
definition kFirstType :: byte where "kFirstType = 1"
definition kMiddleType :: byte where "kMiddleType = 2"
definition kLastType :: byte where "kLastType = 3"
definition kMaxRecordType :: byte where "kMaxRecordType = kLastType"

definition kRegularType :: byte where "kRegularType = 0"
definition kTTLType :: byte where "kTTLType = 1"
definition kTimestampType :: byte where "kTimestampType = 2"

text \<open>
  The members of the class, in the order of the source. \<^verbatim>\<open>size_t\<close> is 64 bits wide. The
  two owned buffers are represented by their capacities \<open>kbs\<close> and \<open>bbs\<close>; the bytes read
  into them are the slices \<open>key\<close> and \<open>blob\<close>.
\<close>

record BlobLogRecord =
  checksum :: "32 word"
  header_cksum :: "32 word"
  key_size :: "32 word"
  blob_size :: "64 word"
  time_val :: "64 word"
  ttl_val :: "32 word"
  sn :: "64 word"
  type :: byte
  subtype :: byte
  key :: Slice
  blob :: Slice
  kbs :: "64 word"
  bbs :: "64 word"

definition BlobLogRecord_kHeaderSize :: nat where
  "BlobLogRecord_kHeaderSize = 4 + 4 + 4 + 8 + 4 + 8 + 1 + 1"

definition BlobLogRecord_kFooterSize :: nat where
  "BlobLogRecord_kFooterSize = 8"

definition GetKeySize :: "BlobLogRecord \<Rightarrow> 32 word" where
  "GetKeySize r = key_size r"

definition GetBlobSize :: "BlobLogRecord \<Rightarrow> 64 word" where
  "GetBlobSize r = blob_size r"

definition GetTTL :: "BlobLogRecord \<Rightarrow> 32 word" where
  "GetTTL r = ttl_val r"

definition GetTimeVal :: "BlobLogRecord \<Rightarrow> 64 word" where
  "GetTimeVal r = time_val r"

definition GetSN :: "BlobLogRecord \<Rightarrow> 64 word" where
  "GetSN r = sn r"

text \<open>
  Modelled from the spec: \<^verbatim>\<open>BlobLogRecord::clear\<close> (body not among the sources): resets
  all scalar fields to zero and truncates, without deallocating, the key and blob spans
  to empty.
\<close>

definition clear :: "BlobLogRecord \<Rightarrow> BlobLogRecord" where
  "clear r = r\<lparr>checksum := 0, header_cksum := 0, key_size := 0, blob_size := 0,
               time_val := 0, ttl_val := 0, sn := 0, type := 0, subtype := 0,
               key := [], blob := []\<rparr>"

text \<open>
  Modelled from the spec: \<^verbatim>\<open>resizeKeyBuffer\<close> and \<^verbatim>\<open>resizeBlobBuffer\<close> (bodies not among
  the sources): grow the owned region to at least \<open>n\<close> bytes if it is smaller, otherwise
  do nothing. An allocation that the machine cannot satisfy is not modelled.
\<close>

definition resizeKeyBuffer :: "64 word \<Rightarrow> BlobLogRecord \<Rightarrow> BlobLogRecord" where
  "resizeKeyBuffer n r = (if kbs r < n then r\<lparr>kbs := n\<rparr> else r)"

definition resizeBlobBuffer :: "64 word \<Rightarrow> BlobLogRecord \<Rightarrow> BlobLogRecord" where
  "resizeBlobBuffer n r = (if bbs r < n then r\<lparr>bbs := n\<rparr> else r)"

text \<open>
  Modelled from the spec: \<^verbatim>\<open>BlobLogRecord::DecodeHeaderFrom\<close> (declared in the header
  file, its body is not among the sources). It reads the fixed 34-byte record header
  \<^verbatim>\<open>payload_checksum(4) header_checksum(4) key_size(4) blob_size(8) ttl_val(4) time_val(8)
  type(1) subtype(1)\<close>, recomputes the checksum over the 26 bytes following
  \<open>header_checksum\<close> and fails with \<open>HeaderChecksumMismatch\<close> when it differs from the
  stored one; then fails with \<open>UnknownRecordType\<close> / \<open>UnknownSubtype\<close> when a tag byte is
  no enumerator; on success it populates all scalar fields. The checksum function \<open>crc\<close>
  is a parameter. The specification names no error for an input shorter than 34 bytes:
  the structural failure \<open>MalformedHeader\<close> stands for it. A failed decode leaves the
  record and the input as they were; a successful one consumes the 34 bytes.
\<close>

definition DecodeHeaderFrom ::
  "(byte list \<Rightarrow> 32 word) \<Rightarrow> BlobLogRecord \<Rightarrow> Slice \<Rightarrow> Status \<times> BlobLogRecord \<times> Slice" where
  "DecodeHeaderFrom crc r input =
     (if length input < BlobLogRecord_kHeaderSize then (MalformedHeader, r, input)
      else
        let header_ck = Fixed32_at 4 input
        in if crc (take 26 (drop 8 input)) \<noteq> header_ck
           then (HeaderChecksumMismatch, r, input)
           else if kMaxRecordType < input ! 32 then (UnknownRecordType, r, input)
           else if kTimestampType < input ! 33 then (UnknownSubtype, r, input)
           else (OK,
                 r\<lparr>checksum := Fixed32_at 0 input, header_cksum := header_ck,
                   key_size := Fixed32_at 8 input, blob_size := Fixed64_at 12 input,
                   time_val := Fixed64_at 24 input, ttl_val := Fixed32_at 20 input,
                   type := input ! 32, subtype := input ! 33\<rparr>,
                 drop BlobLogRecord_kHeaderSize input))"

subsection \<open>The collaborators of the reader\<close>

text \<open>
  Modelled from the spec: the sequential byte stream and the checksum, which the
  specification describes at their interface only (util/file_reader_writer.h and
  util/crc32c.h are not among the sources). A file is a state of any type \<open>'f\<close>;
  \<open>file_Read n f\<close> is \<^verbatim>\<open>file_->Read(n, &result, scratch)\<close>: the status, the slice it
  produced and the file afterwards; \<open>file_Skip n f\<close> is \<^verbatim>\<open>file_->Skip(n)\<close>. The reader
  is defined for every such file, so its theorems hold whatever the stream does.
\<close>

record 'f collaborators =
  crc_Value :: "byte list \<Rightarrow> 32 word"
  file_Read :: "64 word \<Rightarrow> 'f \<Rightarrow> Status \<times> Slice \<times> 'f"
  file_Skip :: "64 word \<Rightarrow> 'f \<Rightarrow> Status \<times> 'f"

text \<open>
  The read depths that \<^verbatim>\<open>ReadRecord\<close> switches on (the enumeration is declared in
  blob_log_reader.h, not among the sources).
\<close>

datatype READ_LEVEL = kReadLevelHdrFooter | kReadLevelHdrFooterKey | kReadLevelHdrFooterKeyBlob

text \<open>
  Modelled from the spec: the recovery policy \<^verbatim>\<open>WALRecoveryMode\<close> (rocksdb/options.h is
  not among the sources). \<open>kTolerateCorruptedTailRecords\<close> is the tolerant policy of the
  specification, \<open>kAbsoluteConsistency\<close> the strict one.
\<close>

datatype WALRecoveryMode =
    kTolerateCorruptedTailRecords
  | kAbsoluteConsistency
  | kPointInTimeRecovery
  | kSkipAnyCorruptedRecords

subsection \<open>Reader\<close>

text \<open>
  The members of \<^verbatim>\<open>Reader\<close> that its functions use: the file \<open>file_ptr\<close> (never
  null: the constructor takes it over), the slice \<open>buffer\<close> and the offset \<open>next_byte\<close>. The logger
  is not used, and \<open>backing_store\<close> is the storage behind \<open>buffer\<close>.
\<close>

record 'f Reader =
  file_ptr :: 'f
  buffer :: Slice
  next_byte :: "64 word"

definition Reader_new :: "'f \<Rightarrow> 'f Reader" where
  "Reader_new f = \<lparr>file_ptr = f, buffer = [], next_byte = 0\<rparr>"

text \<open>
  \<^verbatim>\<open>Reader::ReadHeader\<close>. The assertion on \<open>next_byte\<close> is a branch of its own; the
  header's magic constant is passed on to \<^verbatim>\<open>DecodeFrom\<close>.
\<close>

definition ReadHeader ::
  "'f collaborators \<Rightarrow> 32 word \<Rightarrow> 'f Reader \<Rightarrow> BlobLogHeader
     \<Rightarrow> fault + (Status \<times> BlobLogHeader \<times> 'f Reader)" where
  "ReadHeader X kMagicNumber rd0 header0 =
     (if next_byte rd0 \<noteq> 0 then Inl AssertionFailed
      else
        let (status, buf, f) = file_Read X (of_nat BlobLogHeader_kHeaderSize) (file_ptr rd0);
            rd = rd0\<lparr>file_ptr := f, buffer := buf\<rparr>
        in if status \<noteq> OK then Inr (status, header0, rd)
           else
             let (status, header, buf) = BlobLogHeader_DecodeFrom kMagicNumber header0 (buffer rd)
             in Inr (status, header, rd\<lparr>buffer := buf\<rparr>))"

text \<open>
  \<^verbatim>\<open>Reader::ReadRecord\<close>, statement by statement. The record and the buffer are reset,
  the 34-byte header is read and \<open>next_byte\<close> advanced whatever the read's status; a
  failed read or a failed header decode returns at once. Then each branch of the switch
  makes its skips and reads, overwriting \<open>status\<close> each time (the status of a skip is
  dropped), reads the 8-byte footer, decodes the sequence number from the buffer and only
  then adds to \<open>next_byte\<close> and returns the status of the footer read. The parameter
  \<open>wal_recovery_mode\<close> does not occur in the body. The decoder reads eight bytes at
  \<^verbatim>\<open>buffer_.data()\<close>; when the slice holds fewer, the outcome is \<open>DecodeBeyondBuffer\<close>.
\<close>

definition ReadRecord ::
  "'f collaborators \<Rightarrow> 'f Reader \<Rightarrow> BlobLogRecord \<Rightarrow> READ_LEVEL \<Rightarrow> WALRecoveryMode
     \<Rightarrow> fault + (Status \<times> BlobLogRecord \<times> 'f Reader)" where
  "ReadRecord X rd0 record0 level wal_recovery_mode =
     (let record1 = clear record0;
          rd = rd0\<lparr>buffer := []\<rparr>;
          (status, buf, f) = file_Read X (of_nat BlobLogRecord_kHeaderSize) (file_ptr rd);
          rd1 = rd\<lparr>file_ptr := f, buffer := buf,
                   next_byte := next_byte rd + of_nat BlobLogRecord_kHeaderSize\<rparr>
      in if status \<noteq> OK then Inr (status, record1, rd1)
         else
           let (status, record2, buf) = DecodeHeaderFrom (crc_Value X) record1 (buffer rd1);
               rd2 = rd1\<lparr>buffer := buf\<rparr>
           in if status \<noteq> OK then Inr (status, record2, rd2)
              else
                let kb_size = ucast (GetKeySize record2) + GetBlobSize record2
                in case level of
                     kReadLevelHdrFooter \<Rightarrow>
                       (let (skipped, f) = file_Skip X kb_size (file_ptr rd2);
                            (status, buf, f) =
                              file_Read X (of_nat BlobLogRecord_kFooterSize) f;
                            rd3 = rd2\<lparr>file_ptr := f, buffer := buf\<rparr>
                        in case DecodeFixed64 (buffer rd3) of
                             None \<Rightarrow> Inl DecodeBeyondBuffer
                           | Some v \<Rightarrow>
                               Inr (status, record2\<lparr>sn := v\<rparr>,
                                    rd3\<lparr>next_byte := next_byte rd3
                                           + (kb_size + of_nat BlobLogRecord_kFooterSize)\<rparr>))
                   | kReadLevelHdrFooterKey \<Rightarrow>
                       (let record3 = resizeKeyBuffer (ucast (GetKeySize record2)) record2;
                            (status, k, f) =
                              file_Read X (ucast (GetKeySize record3)) (file_ptr rd2);
                            record4 = record3\<lparr>key := k\<rparr>;
                            (skipped, f) = file_Skip X (GetBlobSize record4) f;
                            (status, buf, f) =
                              file_Read X (of_nat BlobLogRecord_kFooterSize) f;
                            rd3 = rd2\<lparr>file_ptr := f, buffer := buf\<rparr>
                        in case DecodeFixed64 (buffer rd3) of
                             None \<Rightarrow> Inl DecodeBeyondBuffer
                           | Some v \<Rightarrow>
                               Inr (status, record4\<lparr>sn := v\<rparr>,
                                    rd3\<lparr>next_byte := next_byte rd3
                                           + (kb_size + of_nat BlobLogRecord_kFooterSize)\<rparr>))
                   | kReadLevelHdrFooterKeyBlob \<Rightarrow>
                       (let record3 = resizeKeyBuffer (ucast (GetKeySize record2)) record2;
                            (status, k, f) =
                              file_Read X (ucast (GetKeySize record3)) (file_ptr rd2);
                            record4 = resizeBlobBuffer (GetBlobSize record3) (record3\<lparr>key := k\<rparr>);
                            (status, b, f) = file_Read X (GetBlobSize record4) f;
                            record5 = record4\<lparr>blob := b\<rparr>;
                            (status, buf, f) =
                              file_Read X (of_nat BlobLogRecord_kFooterSize) f;
                            rd3 = rd2\<lparr>file_ptr := f, buffer := buf\<rparr>
                        in case DecodeFixed64 (buffer rd3) of
                             None \<Rightarrow> Inl DecodeBeyondBuffer
                           | Some v \<Rightarrow>
                               Inr (status, record5\<lparr>sn := v\<rparr>,
                                    rd3\<lparr>next_byte := next_byte rd3
                                           + (kb_size + of_nat BlobLogRecord_kFooterSize)\<rparr>)))"

subsection \<open>A concrete file and a concrete checksum\<close>

text \<open>
  Modelled from the spec: a sequential byte stream supporting exact-length reads, byte
  skips and end-of-stream signalling, as a file in memory. \<open>contents\<close> are its bytes and
  \<open>pos\<close> is the cursor. A read of \<open>n\<close> bytes delivers the next \<open>n\<close> bytes with status
  \<open>OK\<close>; when fewer are left it delivers those and signals the end of the stream
  (\<open>EndOfLog\<close>). \<open>faults\<close> scripts stream-level failures: each call takes the head of the
  list, and \<open>True\<close> makes that call fail with \<open>IoError\<close>, delivering nothing and leaving
  the cursor where it was; with an empty script no call fails.
\<close>

record MemFile =
  contents :: "byte list"
  pos :: nat
  faults :: "bool list"

definition mem_Read :: "64 word \<Rightarrow> MemFile \<Rightarrow> Status \<times> Slice \<times> MemFile" where
  "mem_Read n f =
     (case faults f of
        True # fs \<Rightarrow> (IoError, [], f\<lparr>faults := fs\<rparr>)
      | _ \<Rightarrow>
          let got = take (unat n) (drop (pos f) (contents f))
          in (if length got < unat n then EndOfLog else OK, got,
              f\<lparr>pos := pos f + length got, faults := tl (faults f)\<rparr>))"

definition mem_Skip :: "64 word \<Rightarrow> MemFile \<Rightarrow> Status \<times> MemFile" where
  "mem_Skip n f =
     (case faults f of
        True # fs \<Rightarrow> (IoError, f\<lparr>faults := fs\<rparr>)
      | _ \<Rightarrow>
          let left = length (contents f) - pos f
          in (if left < unat n then EndOfLog else OK,
              f\<lparr>pos := pos f + min (unat n) left, faults := tl (faults f)\<rparr>))"

text \<open>
  Modelled from the spec: a 32-bit checksum function over a byte span, here CRC-32C
  (Castagnoli, reflected polynomial \<open>0x82F63B78\<close>, initial value and final complement
  \<open>0xFFFFFFFF\<close>), computed bit by bit. It instantiates the checksum parameter where a
  concrete stream is evaluated.
\<close>

definition crc32c_bit :: "32 word \<Rightarrow> 32 word" where
  "crc32c_bit c = (if c AND 1 = 1 then drop_bit 1 c XOR 0x82F63B78 else drop_bit 1 c)"

definition crc32c_byte :: "byte \<Rightarrow> 32 word \<Rightarrow> 32 word" where
  "crc32c_byte b c =
     crc32c_bit (crc32c_bit (crc32c_bit (crc32c_bit
       (crc32c_bit (crc32c_bit (crc32c_bit (crc32c_bit (c XOR ucast b))))))))"

definition crc32c_Value :: "byte list \<Rightarrow> 32 word" where
  "crc32c_Value bs = fold crc32c_byte bs 0xFFFFFFFF XOR 0xFFFFFFFF"

definition mem_collaborators :: "(byte list \<Rightarrow> 32 word) \<Rightarrow> MemFile collaborators" where
  "mem_collaborators crc = \<lparr>crc_Value = crc, file_Read = mem_Read, file_Skip = mem_Skip\<rparr>"

subsection \<open>Calls in sequence, and the stream position of the record footer\<close>



text \<open>
  \<open>file_before_footer X level r f\<close> is the file on which \<^verbatim>\<open>ReadRecord\<close> issues the read of
  the 8-byte record footer: the file \<open>f\<close> left by the header read, after the skips and
  reads that the branch of \<open>level\<close> makes for the key and the blob of the decoded record
  \<open>r\<close>.
\<close>

definition file_before_footer ::
  "'f collaborators \<Rightarrow> READ_LEVEL \<Rightarrow> BlobLogRecord \<Rightarrow> 'f \<Rightarrow> 'f" where
  "file_before_footer X level r f =
     (case level of
        kReadLevelHdrFooter \<Rightarrow>
          snd (file_Skip X (ucast (GetKeySize r) + GetBlobSize r) f)
      | kReadLevelHdrFooterKey \<Rightarrow>
          snd (file_Skip X (GetBlobSize r) (snd (snd (file_Read X (ucast (GetKeySize r)) f))))
      | kReadLevelHdrFooterKeyBlob \<Rightarrow>
          snd (snd (file_Read X (GetBlobSize r)
                      (snd (snd (file_Read X (ucast (GetKeySize r)) f))))))"

subsection \<open>Concrete logs\<close>

text \<open>
  A record object as \<^verbatim>\<open>BlobLogRecord()\<close> leaves it (all fields zero, no buffers), and the
  bytes of one record: payload checksum 0, the CRC-32C of the 26 header bytes that follow
  it, key size 1, blob size 1, TTL 0, time 0, type \<open>kFullType\<close>, subtype \<open>kRegularType\<close>;
  then the key byte, the blob byte and the sequence number 7.
\<close>

definition BlobLogRecord_new :: BlobLogRecord where
  "BlobLogRecord_new =
     \<lparr>checksum = 0, header_cksum = 0, key_size = 0, blob_size = 0, time_val = 0,
      ttl_val = 0, sn = 0, type = 0, subtype = 0, key = [], blob = [], kbs = 0, bbs = 0\<rparr>"

definition example_header :: "byte list" where
  "example_header =
     [0, 0, 0, 0,  45, 179, 45, 161,  1, 0, 0, 0,  1, 0, 0, 0, 0, 0, 0, 0,
      0, 0, 0, 0,  0, 0, 0, 0, 0, 0, 0, 0,  0,  0]"

definition example_record :: "byte list" where
  "example_record = example_header @ [107, 98] @ [7, 0, 0, 0, 0, 0, 0, 0]"

text \<open>The same header with a stale header checksum (its four bytes zeroed).\<close>

definition corrupt_header :: "byte list" where
  "corrupt_header =
     [0, 0, 0, 0,  0, 0, 0, 0,  1, 0, 0, 0,  1, 0, 0, 0, 0, 0, 0, 0,
      0, 0, 0, 0,  0, 0, 0, 0, 0, 0, 0, 0,  0,  0]"

definition corrupt_record :: "byte list" where
  "corrupt_record = corrupt_header @ [107, 98] @ [7, 0, 0, 0, 0, 0, 0, 0]"

text \<open>The example record cut off in the middle of its footer.\<close>

definition truncated_record :: "byte list" where
  "truncated_record = example_header @ [107, 98] @ [7, 0, 0, 0]"

text \<open>A log that ends after the first ten bytes of the example header.\<close>

definition truncated_header :: "byte list" where
  "truncated_header = [0, 0, 0, 0,  45, 179, 45, 161,  1, 0]"

text \<open>A file header with a TTL range and no timestamp range, and a file footer.\<close>

definition example_file_header :: BlobLogHeader where
  "example_file_header =
     \<lparr>hdr_magic_number = 2395959, ttl_guess = Some (10, 20), ts_guess = None\<rparr>"

definition example_file_footer :: BlobLogFooter where
  "example_file_footer =
     \<lparr>ftr_magic_number = 2395959, blob_count = 3, ttl_range = None,
      ts_range = Some (1, 2), sn_range = (5, 9)\<rparr>"

definition mem_file :: "byte list \<Rightarrow> bool list \<Rightarrow> MemFile" where
  "mem_file bs script = \<lparr>contents = bs, pos = 0, faults = script\<rparr>"

definition crc32c_collaborators :: "MemFile collaborators" where
  "crc32c_collaborators = mem_collaborators crc32c_Value"

section \<open>Properties\<close>

subsection \<open>The codec decodes what it encodes\<close>

lemma length_le_bytes: "length (le_bytes k v) = k"
  by (induction k arbitrary: v) simp_all

lemma le_value_le_bytes: "le_value (le_bytes k v) = v mod 256 ^ k"
proof (induction k arbitrary: v)
  case 0
  show ?case by simp
next
  case (Suc k)
  have "unat (of_nat (v mod 256) :: byte) = v mod 256"
    by (simp add: unat_of_nat)
  then have "le_value (le_bytes (Suc k) v) = v mod 256 + 256 * (v div 256 mod 256 ^ k)"
    by (simp add: Suc.IH)
  also have "\<dots> = v mod 256 ^ Suc k"
    by (simp add: mod_mult2_eq)
  finally show ?case .
qed

lemma length_EncodeFixed32: "length (EncodeFixed32 v) = 4"
  by (simp add: EncodeFixed32_def length_le_bytes)

lemma length_EncodeFixed64: "length (EncodeFixed64 v) = 8"
  by (simp add: EncodeFixed64_def length_le_bytes)

lemma le_value_EncodeFixed32: "of_nat (le_value (EncodeFixed32 v)) = v"
proof -
  have "unat v < 2 ^ 32"
    using unsigned_less [of v, where ?'a = nat] by simp
  then have "le_value (EncodeFixed32 v) = unat v"
    by (simp add: EncodeFixed32_def le_value_le_bytes del: le_bytes.simps)
  then show ?thesis by simp
qed

lemma le_value_EncodeFixed64: "of_nat (le_value (EncodeFixed64 v)) = v"
proof -
  have "unat v < 2 ^ 64"
    using unsigned_less [of v, where ?'a = nat] by simp
  then have "le_value (EncodeFixed64 v) = unat v"
    by (simp add: EncodeFixed64_def le_value_le_bytes del: le_bytes.simps)
  then show ?thesis by simp
qed

lemma flag_has_ttl_presence: "flag_has_ttl (presence_flags a b) = a"
  by (cases a; cases b) (simp_all add: flag_has_ttl_def presence_flags_def)

lemma flag_has_ts_presence: "flag_has_ts (presence_flags a b) = b"
  by (cases a; cases b) (simp_all add: flag_has_ts_def presence_flags_def)

lemma header_roundtrip:
  assumes "hdr_magic_number x = kMagicNumber"
  shows "BlobLogHeader_DecodeFrom kMagicNumber h (BlobLogHeader_EncodeTo x []) = (OK, x, [])"
proof -
  obtain m fl a b c d where enc:
    "BlobLogHeader_EncodeTo x [] =
       EncodeFixed32 m @ EncodeFixed32 fl @ EncodeFixed32 a @ EncodeFixed32 b
         @ EncodeFixed64 c @ EncodeFixed64 d"
    and m: "m = hdr_magic_number x"
    and fl: "fl = presence_flags (ttl_guess x \<noteq> None) (ts_guess x \<noteq> None)"
    and ttl: "ttl_guess x \<noteq> None \<Longrightarrow> ttl_guess x = Some (a, b)"
    and ts: "ts_guess x \<noteq> None \<Longrightarrow> ts_guess x = Some (c, d)"
    by (auto simp: BlobLogHeader_EncodeTo_def Let_def HasTTL_def HasTimestamp_def
          split: option.splits)
  have len: "length (BlobLogHeader_EncodeTo x []) = 32"
    by (simp add: enc length_EncodeFixed32 length_EncodeFixed64)
  have f0: "Fixed32_at 0 (BlobLogHeader_EncodeTo x []) = m"
   and f4: "Fixed32_at 4 (BlobLogHeader_EncodeTo x []) = fl"
   and f8: "Fixed32_at 8 (BlobLogHeader_EncodeTo x []) = a"
   and f12: "Fixed32_at 12 (BlobLogHeader_EncodeTo x []) = b"
    by (simp_all add: enc Fixed32_at_def length_EncodeFixed32 length_EncodeFixed64
          le_value_EncodeFixed32)
  have f16: "Fixed64_at 16 (BlobLogHeader_EncodeTo x []) = c"
   and f24: "Fixed64_at 24 (BlobLogHeader_EncodeTo x []) = d"
    by (simp_all add: enc Fixed64_at_def length_EncodeFixed32 length_EncodeFixed64
          le_value_EncodeFixed64)
  have "BlobLogHeader_DecodeFrom kMagicNumber h (BlobLogHeader_EncodeTo x []) =
          (OK, \<lparr>hdr_magic_number = m,
                 ttl_guess = (if ttl_guess x \<noteq> None then Some (a, b) else None),
                 ts_guess = (if ts_guess x \<noteq> None then Some (c, d) else None)\<rparr>, [])"
    using assms
    by (simp add: BlobLogHeader_DecodeFrom_def BlobLogHeader_kHeaderSize_def len
          f0 f4 f8 f12 f16 f24 m fl flag_has_ttl_presence flag_has_ts_presence)
  also have "\<lparr>hdr_magic_number = m,
                 ttl_guess = (if ttl_guess x \<noteq> None then Some (a, b) else None),
                 ts_guess = (if ts_guess x \<noteq> None then Some (c, d) else None)\<rparr> = x"
    using m ttl ts by (cases "ttl_guess x"; cases "ts_guess x"; cases x) simp_all
  finally show ?thesis .
qed

lemma footer_roundtrip:
  assumes "ftr_magic_number y = kFooterMagic"
  shows "BlobLogFooter_DecodeFrom kFooterMagic ft (BlobLogFooter_EncodeTo y []) = (OK, y, [])"
proof -
  obtain m fl a b c d where enc:
    "BlobLogFooter_EncodeTo y [] =
       EncodeFixed32 m @ EncodeFixed32 fl @ EncodeFixed64 (blob_count y)
         @ EncodeFixed32 a @ EncodeFixed32 b
         @ EncodeFixed64 (fst (sn_range y)) @ EncodeFixed64 (snd (sn_range y))
         @ EncodeFixed64 c @ EncodeFixed64 d"
    and m: "m = ftr_magic_number y"
    and fl: "fl = presence_flags (ttl_range y \<noteq> None) (ts_range y \<noteq> None)"
    and ttl: "ttl_range y \<noteq> None \<Longrightarrow> ttl_range y = Some (a, b)"
    and ts: "ts_range y \<noteq> None \<Longrightarrow> ts_range y = Some (c, d)"
    by (auto simp: BlobLogFooter_EncodeTo_def Let_def split: option.splits)
  have len: "length (BlobLogFooter_EncodeTo y []) = 56"
    by (simp add: enc length_EncodeFixed32 length_EncodeFixed64)
  have f0: "Fixed32_at 0 (BlobLogFooter_EncodeTo y []) = m"
   and f4: "Fixed32_at 4 (BlobLogFooter_EncodeTo y []) = fl"
   and f16: "Fixed32_at 16 (BlobLogFooter_EncodeTo y []) = a"
   and f20: "Fixed32_at 20 (BlobLogFooter_EncodeTo y []) = b"
    by (simp_all add: enc Fixed32_at_def length_EncodeFixed32 length_EncodeFixed64
          le_value_EncodeFixed32)
  have f8: "Fixed64_at 8 (BlobLogFooter_EncodeTo y []) = blob_count y"
   and f24: "Fixed64_at 24 (BlobLogFooter_EncodeTo y []) = fst (sn_range y)"
   and f32: "Fixed64_at 32 (BlobLogFooter_EncodeTo y []) = snd (sn_range y)"
   and f40: "Fixed64_at 40 (BlobLogFooter_EncodeTo y []) = c"
   and f48: "Fixed64_at 48 (BlobLogFooter_EncodeTo y []) = d"
    by (simp_all add: enc Fixed64_at_def length_EncodeFixed32 length_EncodeFixed64
          le_value_EncodeFixed64)
  have "BlobLogFooter_DecodeFrom kFooterMagic ft (BlobLogFooter_EncodeTo y []) =
          (OK, \<lparr>ftr_magic_number = m, blob_count = blob_count y,
                 ttl_range = (if ttl_range y \<noteq> None then Some (a, b) else None),
                 ts_range = (if ts_range y \<noteq> None then Some (c, d) else None),
                 sn_range = sn_range y\<rparr>, [])"
    using assms
    by (simp add: BlobLogFooter_DecodeFrom_def BlobLogFooter_kFooterSize_def len
          f0 f4 f8 f16 f20 f24 f32 f40 f48 m fl flag_has_ttl_presence flag_has_ts_presence)
  also have "\<lparr>ftr_magic_number = m, blob_count = blob_count y,
                 ttl_range = (if ttl_range y \<noteq> None then Some (a, b) else None),
                 ts_range = (if ts_range y \<noteq> None then Some (c, d) else None),
                 sn_range = sn_range y\<rparr> = y"
    using m ttl ts by (cases "ttl_range y"; cases "ts_range y"; cases y) simp_all
  finally show ?thesis .
qed

text \<open>
  Claim C7. For every valid header and footer value (its magic number is the format's
  constant), \<open>DecodeFrom\<close> applied to the bytes that \<open>EncodeTo\<close> appends to an empty
  string succeeds, consumes all of them and yields the value itself, with each optional
  range absent or present as it was; what the decoded object held before does not matter.
\<close>

theorem header_footer_roundtrip:
  "(hdr_magic_number x = kMagicNumber \<longrightarrow>
      BlobLogHeader_DecodeFrom kMagicNumber h (BlobLogHeader_EncodeTo x []) = (OK, x, []))
   \<and> (ftr_magic_number y = kFooterMagic \<longrightarrow>
      BlobLogFooter_DecodeFrom kFooterMagic ft (BlobLogFooter_EncodeTo y []) = (OK, y, []))"
  by (simp add: header_roundtrip footer_roundtrip)

text \<open>
  Claim C7 at a header with a TTL range and no timestamp range, and at a footer with a
  timestamp range and no TTL range.
\<close>

theorem header_footer_roundtrip_witness:
  "hdr_magic_number example_file_header = 2395959
   \<and> BlobLogHeader_DecodeFrom 2395959
        \<lparr>hdr_magic_number = 0, ttl_guess = None, ts_guess = None\<rparr>
        (BlobLogHeader_EncodeTo example_file_header []) = (OK, example_file_header, [])
   \<and> HasTTL example_file_header \<and> \<not> HasTimestamp example_file_header
   \<and> ftr_magic_number example_file_footer = 2395959
   \<and> BlobLogFooter_DecodeFrom 2395959
        \<lparr>ftr_magic_number = 0, blob_count = 0, ttl_range = None, ts_range = None,
         sn_range = (0, 0)\<rparr>
        (BlobLogFooter_EncodeTo example_file_footer []) = (OK, example_file_footer, [])"
  using header_footer_roundtrip
          [of example_file_header 2395959
              "\<lparr>hdr_magic_number = 0, ttl_guess = None, ts_guess = None\<rparr>"
              example_file_footer 2395959
              "\<lparr>ftr_magic_number = 0, blob_count = 0, ttl_range = None, ts_range = None,
                sn_range = (0, 0)\<rparr>"]
  by (simp add: example_file_header_def example_file_footer_def HasTTL_def HasTimestamp_def)

subsection \<open>Evaluating the reader on the concrete logs\<close>

lemmas ReadRecord_unfold = ReadRecord_def Let_def resizeKeyBuffer_def resizeBlobBuffer_def
  GetKeySize_def GetBlobSize_def

lemma example_header_crc:
  "crc32c_Value [1, 0, 0, 0, 1, 0, 0, 0, 0, 0, 0, 0, 0, 0, 0, 0, 0, 0, 0, 0, 0, 0, 0, 0, 0, 0]
     = 0xA12DB32D"
  by (simp add: crc32c_Value_def crc32c_byte_def crc32c_bit_def)

lemma example_payload_crc: "crc32c_Value [107, 98] = 1492376160"
  by (simp add: crc32c_Value_def crc32c_byte_def crc32c_bit_def)

lemmas eval_simps =
  ReadRecord_def crc32c_collaborators_def mem_collaborators_def mem_file_def Reader_new_def
  BlobLogRecord_new_def example_record_def example_header_def corrupt_header_def
  corrupt_record_def truncated_record_def truncated_header_def mem_Read_def mem_Skip_def DecodeHeaderFrom_def
  Fixed32_at_def Fixed64_at_def DecodeFixed64_def BlobLogRecord_kHeaderSize_def
  BlobLogRecord_kFooterSize_def clear_def resizeKeyBuffer_def resizeBlobBuffer_def
  GetKeySize_def GetBlobSize_def kMaxRecordType_def kLastType_def kTimestampType_def
  file_before_footer_def Let_def example_header_crc

subsection \<open>The recovery policy\<close>

text \<open>
  Claim C10. For every file, reader, record object and depth, \<open>ReadRecord\<close> has the
  same outcome (status, record, reader with its offset and its file) for any two values
  of the recovery policy.
\<close>

theorem ReadRecord_ignores_recovery_mode:
  "ReadRecord X rd r level m1 = ReadRecord X rd r level m2"
  by (simp add: ReadRecord_def)

lemma DecodeHeaderFrom_not_EndOfLog:
  assumes "DecodeHeaderFrom crc r input = (st, r2, rest)"
  shows "st \<noteq> EndOfLog"
  using assms
  by (auto simp: DecodeHeaderFrom_def Let_def split: if_splits)

text \<open>
  Claim C2, as amended. \<open>ReadRecord\<close> does not apply the recovery policy: its outcome
  under the strict policy is its outcome under the tolerant one. A failure of the header
  read is returned with the status the stream gave (\<open>EndOfLog\<close> when the stream signals
  its end on a short read), and a header that does not decode (a checksum or tag failure)
  is returned as that failure, which is never \<open>EndOfLog\<close>; in both cases the record is
  as \<open>clear\<close> left it and nothing is read beyond the header.
\<close>

theorem failure_reported_under_every_policy:
  assumes hdr: "file_Read X (of_nat BlobLogRecord_kHeaderSize) (file_ptr rd) = (st_read, hbuf, f1)"
      and dec: "DecodeHeaderFrom (crc_Value X) (clear r) hbuf = (st_dec, r2, rest)"
  shows "ReadRecord X rd r level kAbsoluteConsistency =
           ReadRecord X rd r level kTolerateCorruptedTailRecords
       \<and> (st_read \<noteq> OK \<longrightarrow>
            ReadRecord X rd r level kTolerateCorruptedTailRecords =
              Inr (st_read, clear r,
                   rd\<lparr>file_ptr := f1, buffer := hbuf,
                      next_byte := next_byte rd + of_nat BlobLogRecord_kHeaderSize\<rparr>))
       \<and> (st_read = OK \<and> st_dec \<noteq> OK \<longrightarrow>
            st_dec \<noteq> EndOfLog \<and>
            ReadRecord X rd r level kTolerateCorruptedTailRecords =
              Inr (st_dec, clear r,
                   rd\<lparr>file_ptr := f1, buffer := hbuf,
                      next_byte := next_byte rd + of_nat BlobLogRecord_kHeaderSize\<rparr>))"
proof -
  have same: "ReadRecord X rd r level kAbsoluteConsistency =
                ReadRecord X rd r level kTolerateCorruptedTailRecords"
    by (simp add: ReadRecord_def)
  have read_failed: "ReadRecord X rd r level kTolerateCorruptedTailRecords =
              Inr (st_read, clear r,
                   rd\<lparr>file_ptr := f1, buffer := hbuf,
                      next_byte := next_byte rd + of_nat BlobLogRecord_kHeaderSize\<rparr>)"
    if "st_read \<noteq> OK"
    using hdr that by (simp add: ReadRecord_def)
  have decode_failed: "st_dec \<noteq> EndOfLog \<and>
            ReadRecord X rd r level kTolerateCorruptedTailRecords =
              Inr (st_dec, clear r,
                   rd\<lparr>file_ptr := f1, buffer := hbuf,
                      next_byte := next_byte rd + of_nat BlobLogRecord_kHeaderSize\<rparr>)"
    if ok: "st_read = OK" and bad: "st_dec \<noteq> OK"
  proof -
    from dec bad have "r2 = clear r" and "rest = hbuf"
      by (auto simp: DecodeHeaderFrom_def Let_def split: if_splits)
    with hdr dec ok bad DecodeHeaderFrom_not_EndOfLog [OF dec] show ?thesis
      by (simp add: ReadRecord_def)
  qed
  from same read_failed decode_failed show ?thesis by blast
qed

text \<open>
  Claim C2, as amended, at a log whose only record has a stale header checksum and at a
  log that ends inside the record header.
\<close>

theorem failure_reported_under_every_policy_witness:
  "ReadRecord crc32c_collaborators (Reader_new (mem_file corrupt_record [])) BlobLogRecord_new
     kReadLevelHdrFooter kTolerateCorruptedTailRecords
   = Inr (HeaderChecksumMismatch, BlobLogRecord_new,
          \<lparr>file_ptr = \<lparr>contents = corrupt_record, pos = 34, faults = []\<rparr>,
           buffer = corrupt_header, next_byte = 34\<rparr>)
   \<and> ReadRecord crc32c_collaborators (Reader_new (mem_file corrupt_record [])) BlobLogRecord_new
       kReadLevelHdrFooter kAbsoluteConsistency
     = ReadRecord crc32c_collaborators (Reader_new (mem_file corrupt_record [])) BlobLogRecord_new
         kReadLevelHdrFooter kTolerateCorruptedTailRecords
   \<and> ReadRecord crc32c_collaborators (Reader_new (mem_file truncated_header [])) BlobLogRecord_new
       kReadLevelHdrFooter kTolerateCorruptedTailRecords
     = Inr (EndOfLog, BlobLogRecord_new,
            \<lparr>file_ptr = \<lparr>contents = truncated_header, pos = 10, faults = []\<rparr>,
             buffer = truncated_header, next_byte = 34\<rparr>)
   \<and> ReadRecord crc32c_collaborators (Reader_new (mem_file truncated_header [])) BlobLogRecord_new
       kReadLevelHdrFooter kAbsoluteConsistency
     = ReadRecord crc32c_collaborators (Reader_new (mem_file truncated_header [])) BlobLogRecord_new
         kReadLevelHdrFooter kTolerateCorruptedTailRecords"
proof -
  let ?X = crc32c_collaborators
  have hdr: "file_Read ?X (of_nat BlobLogRecord_kHeaderSize)
               (file_ptr (Reader_new (mem_file corrupt_record [])))
             = (OK, corrupt_header, \<lparr>contents = corrupt_record, pos = 34, faults = []\<rparr>)"
    by (simp add: eval_simps)
  have dec: "DecodeHeaderFrom (crc_Value ?X) (clear BlobLogRecord_new) corrupt_header
               = (HeaderChecksumMismatch, clear BlobLogRecord_new, corrupt_header)"
    by (simp add: eval_simps)
  have hdr': "file_Read ?X (of_nat BlobLogRecord_kHeaderSize)
               (file_ptr (Reader_new (mem_file truncated_header [])))
             = (EndOfLog, truncated_header,
                \<lparr>contents = truncated_header, pos = 10, faults = []\<rparr>)"
    by (simp add: eval_simps)
  have dec': "DecodeHeaderFrom (crc_Value ?X) (clear BlobLogRecord_new) truncated_header
               = (MalformedHeader, clear BlobLogRecord_new, truncated_header)"
    by (simp add: eval_simps)
  from failure_reported_under_every_policy [OF hdr dec, of kReadLevelHdrFooter]
       failure_reported_under_every_policy [OF hdr' dec', of kReadLevelHdrFooter]
  show ?thesis
    by (simp add: Reader_new_def clear_def BlobLogRecord_new_def BlobLogRecord_kHeaderSize_def)
qed

text \<open>
  Claim C2 as stated fails in both halves. Under the tolerant policy a last record whose
  header checksum does not match makes \<open>ReadRecord\<close> return \<open>HeaderChecksumMismatch\<close>,
  not \<open>EndOfLog\<close>; under the strict policy a log that ends inside the record header
  makes it return \<open>EndOfLog\<close>, the status of the stream, not a failure of its own.
\<close>

theorem recovery_policy_not_applied:
  "ReadRecord crc32c_collaborators (Reader_new (mem_file corrupt_record [])) BlobLogRecord_new
     kReadLevelHdrFooterKeyBlob kTolerateCorruptedTailRecords
   = Inr (HeaderChecksumMismatch, BlobLogRecord_new,
          \<lparr>file_ptr = \<lparr>contents = corrupt_record, pos = 34, faults = []\<rparr>,
           buffer = corrupt_header, next_byte = 34\<rparr>)
   \<and> ReadRecord crc32c_collaborators (Reader_new (mem_file truncated_header [])) BlobLogRecord_new
       kReadLevelHdrFooterKeyBlob kAbsoluteConsistency
     = Inr (EndOfLog, BlobLogRecord_new,
            \<lparr>file_ptr = \<lparr>contents = truncated_header, pos = 10, faults = []\<rparr>,
             buffer = truncated_header, next_byte = 34\<rparr>)"
  by (simp add: eval_simps)

subsection \<open>ReadHeader\<close>

text \<open>
  Claim C8. On a reader whose \<open>next_byte\<close> is 0, \<open>ReadHeader\<close> returns (whatever the
  file delivers and whether or not the header decodes) and \<open>next_byte\<close> is still 0.
\<close>

theorem ReadHeader_keeps_next_byte:
  assumes "next_byte rd = 0"
  shows "\<exists>st h' rd'. ReadHeader X kMagicNumber rd h = Inr (st, h', rd') \<and> next_byte rd' = 0"
  using assms
  by (auto simp: ReadHeader_def Let_def split: prod.splits)

text \<open>
  Claim C8 at a fresh reader on a file that starts with an encoded header.
\<close>

theorem ReadHeader_keeps_next_byte_witness:
  "next_byte (Reader_new (mem_file (BlobLogHeader_EncodeTo example_file_header [] @ example_record) [])) = 0
   \<and> (\<exists>st h' rd'.
         ReadHeader crc32c_collaborators 2395959
           (Reader_new (mem_file (BlobLogHeader_EncodeTo example_file_header [] @ example_record) []))
           \<lparr>hdr_magic_number = 0, ttl_guess = None, ts_guess = None\<rparr>
         = Inr (st, h', rd') \<and> next_byte rd' = 0)"
  using ReadHeader_keeps_next_byte
          [of "Reader_new (mem_file (BlobLogHeader_EncodeTo example_file_header [] @ example_record) [])"
              crc32c_collaborators 2395959
              "\<lparr>hdr_magic_number = 0, ttl_guess = None, ts_guess = None\<rparr>"]
  by (simp add: Reader_new_def)

subsection \<open>The header checksum comes first\<close>

text \<open>
  Claim C3. Let the header read succeed with the slice \<open>hbuf\<close>. \<open>DecodeHeaderFrom\<close>
  fails with \<open>HeaderChecksumMismatch\<close> whenever the checksum of the 26 bytes after the
  stored header checksum differs from it, and succeeds only if it matches. Whenever the
  decode fails, \<open>ReadRecord\<close> returns that status with the record as \<open>clear\<close> left it
  (no buffer resized), the file as the header read left it (no read or skip of a size)
  and \<open>next_byte\<close> advanced by the header size alone.
\<close>

theorem header_checksum_guards_sizes:
  assumes hdr: "file_Read X (of_nat BlobLogRecord_kHeaderSize) (file_ptr rd) = (OK, hbuf, f1)"
      and dec: "DecodeHeaderFrom (crc_Value X) (clear r) hbuf = (st, r2, rest)"
  shows "(BlobLogRecord_kHeaderSize \<le> length hbuf
            \<and> crc_Value X (take 26 (drop 8 hbuf)) \<noteq> Fixed32_at 4 hbuf
          \<longrightarrow> st = HeaderChecksumMismatch)
       \<and> (st = OK \<longrightarrow> BlobLogRecord_kHeaderSize \<le> length hbuf
            \<and> crc_Value X (take 26 (drop 8 hbuf)) = Fixed32_at 4 hbuf)
       \<and> (st \<noteq> OK \<longrightarrow>
            ReadRecord X rd r level m =
              Inr (st, clear r,
                   rd\<lparr>file_ptr := f1, buffer := hbuf,
                      next_byte := next_byte rd + of_nat BlobLogRecord_kHeaderSize\<rparr>))"
proof -
  have mismatch: "st = HeaderChecksumMismatch"
    if "BlobLogRecord_kHeaderSize \<le> length hbuf
          \<and> crc_Value X (take 26 (drop 8 hbuf)) \<noteq> Fixed32_at 4 hbuf"
    using dec that by (simp add: DecodeHeaderFrom_def Let_def)
  have accepted: "BlobLogRecord_kHeaderSize \<le> length hbuf
          \<and> crc_Value X (take 26 (drop 8 hbuf)) = Fixed32_at 4 hbuf"
    if "st = OK"
    using dec that by (auto simp: DecodeHeaderFrom_def Let_def split: if_splits)
  have rejected: "ReadRecord X rd r level m =
          Inr (st, clear r,
               rd\<lparr>file_ptr := f1, buffer := hbuf,
                  next_byte := next_byte rd + of_nat BlobLogRecord_kHeaderSize\<rparr>)"
    if bad: "st \<noteq> OK"
  proof -
    from dec bad have "r2 = clear r" and "rest = hbuf"
      by (auto simp: DecodeHeaderFrom_def Let_def split: if_splits)
    with hdr dec bad show ?thesis
      by (simp add: ReadRecord_def)
  qed
  from mismatch accepted rejected show ?thesis by blast
qed

text \<open>
  Claim C3 at a header whose checksum bytes are stale.
\<close>

theorem header_checksum_guards_sizes_witness:
  "BlobLogRecord_kHeaderSize \<le> length corrupt_header
   \<and> crc_Value crc32c_collaborators (take 26 (drop 8 corrupt_header)) \<noteq> Fixed32_at 4 corrupt_header
   \<and> ReadRecord crc32c_collaborators (Reader_new (mem_file corrupt_record [])) BlobLogRecord_new
       kReadLevelHdrFooterKeyBlob kAbsoluteConsistency
     = Inr (HeaderChecksumMismatch, BlobLogRecord_new,
            \<lparr>file_ptr = \<lparr>contents = corrupt_record, pos = 34, faults = []\<rparr>,
             buffer = corrupt_header, next_byte = 34\<rparr>)"
proof -
  let ?X = crc32c_collaborators
  have hdr: "file_Read ?X (of_nat BlobLogRecord_kHeaderSize)
               (file_ptr (Reader_new (mem_file corrupt_record [])))
             = (OK, corrupt_header, \<lparr>contents = corrupt_record, pos = 34, faults = []\<rparr>)"
    by (simp add: eval_simps)
  have dec: "DecodeHeaderFrom (crc_Value ?X) (clear BlobLogRecord_new) corrupt_header
               = (HeaderChecksumMismatch, clear BlobLogRecord_new, corrupt_header)"
    by (simp add: eval_simps)
  have len: "BlobLogRecord_kHeaderSize \<le> length corrupt_header"
    by (simp add: eval_simps)
  have crc: "crc_Value ?X (take 26 (drop 8 corrupt_header)) \<noteq> Fixed32_at 4 corrupt_header"
    by (simp add: eval_simps)
  from header_checksum_guards_sizes
         [OF hdr dec, of kReadLevelHdrFooterKeyBlob kAbsoluteConsistency] len crc
  show ?thesis
    by (simp add: Reader_new_def clear_def BlobLogRecord_new_def BlobLogRecord_kHeaderSize_def)
qed

subsection \<open>The sequence number is decoded before the footer status is looked at\<close>

text \<open>
  Claim C9. In every branch of the switch, once the header has been read and decoded,
  the slice \<open>fbuf\<close> that the footer read produced is decoded whatever status \<open>st\<close> that
  read returned: if \<open>fbuf\<close> holds fewer than 8 bytes the decoder is applied outside its
  precondition (the outcome \<open>DecodeBeyondBuffer\<close>), otherwise the sequence number is
  the decoded \<open>fbuf\<close> and \<open>st\<close> is returned only afterwards.
\<close>

theorem sn_decoded_before_footer_status:
  assumes hdr: "file_Read X (of_nat BlobLogRecord_kHeaderSize) (file_ptr rd) = (OK, hbuf, f1)"
      and dec: "DecodeHeaderFrom (crc_Value X) (clear r) hbuf = (OK, r2, rest)"
      and ftr: "file_Read X (of_nat BlobLogRecord_kFooterSize) (file_before_footer X level r2 f1)
                  = (st, fbuf, f3)"
  shows "(length fbuf < 8 \<longrightarrow> ReadRecord X rd r level m = Inl DecodeBeyondBuffer)
       \<and> (8 \<le> length fbuf \<longrightarrow>
            (\<exists>r' rd'. ReadRecord X rd r level m = Inr (st, r', rd')
                      \<and> Some (sn r') = DecodeFixed64 fbuf \<and> buffer rd' = fbuf))"
  using assms
  by (cases level)
     (auto simp: ReadRecord_unfold file_before_footer_def DecodeFixed64_def
           split: prod.splits)

text \<open>
  Claim C9 at a stream cut off in the middle of the record footer: the footer read
  signals the end of the stream with 4 bytes, and in each of the three branches the
  decoder runs on them.
\<close>

theorem sn_decoded_before_footer_status_witness:
  "file_Read crc32c_collaborators 8 \<lparr>contents = truncated_record, pos = 36, faults = []\<rparr>
     = (EndOfLog, [7, 0, 0, 0], \<lparr>contents = truncated_record, pos = 40, faults = []\<rparr>)
   \<and> ReadRecord crc32c_collaborators (Reader_new (mem_file truncated_record []))
       BlobLogRecord_new kReadLevelHdrFooter kAbsoluteConsistency = Inl DecodeBeyondBuffer
   \<and> ReadRecord crc32c_collaborators (Reader_new (mem_file truncated_record []))
       BlobLogRecord_new kReadLevelHdrFooterKey kAbsoluteConsistency = Inl DecodeBeyondBuffer
   \<and> ReadRecord crc32c_collaborators (Reader_new (mem_file truncated_record []))
       BlobLogRecord_new kReadLevelHdrFooterKeyBlob kAbsoluteConsistency = Inl DecodeBeyondBuffer"
proof -
  let ?X = crc32c_collaborators
  let ?at = "\<lambda>p. \<lparr>contents = truncated_record, pos = p, faults = []\<rparr>"
  let ?r2 = "\<lparr>checksum = 0, header_cksum = 0xA12DB32D, key_size = 1, blob_size = 1,
              time_val = 0, ttl_val = 0, sn = 0, type = 0, subtype = 0, key = [], blob = [],
              kbs = 0, bbs = 0\<rparr>"
  have hdr: "file_Read ?X (of_nat BlobLogRecord_kHeaderSize)
               (file_ptr (Reader_new (mem_file truncated_record []))) = (OK, example_header, ?at 34)"
    by (simp add: eval_simps)
  have dec: "DecodeHeaderFrom (crc_Value ?X) (clear BlobLogRecord_new) example_header
               = (OK, ?r2, [])"
    by (simp add: eval_simps)
  have ftr: "file_Read ?X (of_nat BlobLogRecord_kFooterSize)
               (file_before_footer ?X level ?r2 (?at 34)) = (EndOfLog, [7, 0, 0, 0], ?at 40)"
    for level
    by (cases level) (simp_all add: eval_simps)
  have raw: "file_Read ?X 8 (?at 36) = (EndOfLog, [7, 0, 0, 0], ?at 40)"
    by (simp add: eval_simps)
  from sn_decoded_before_footer_status [OF hdr dec ftr, of _ kAbsoluteConsistency] raw
  show ?thesis by simp
qed

subsection \<open>The payload checksum\<close>

text \<open>
  Claim C1, as amended. At depth \<open>kReadLevelHdrFooterKeyBlob\<close>, once the header has been
  read and decoded, \<open>ReadRecord\<close> materialises as key and blob whatever the two reads
  deliver, copies the payload checksum from the header without comparing it with
  anything, and returns the status of the footer read.
\<close>

theorem deep_read_returns_footer_status:
  assumes hdr: "file_Read X (of_nat BlobLogRecord_kHeaderSize) (file_ptr rd) = (OK, hbuf, f1)"
      and dec: "DecodeHeaderFrom (crc_Value X) (clear r) hbuf = (OK, r2, rest)"
      and kr: "file_Read X (ucast (key_size r2)) f1 = (st_k, k, f2)"
      and br: "file_Read X (blob_size r2) f2 = (st_b, b, f3)"
      and fr: "file_Read X (of_nat BlobLogRecord_kFooterSize) f3 = (st, fbuf, f4)"
      and sq: "DecodeFixed64 fbuf = Some v"
  shows "\<exists>r' rd'. ReadRecord X rd r kReadLevelHdrFooterKeyBlob m = Inr (st, r', rd')
           \<and> key r' = k \<and> blob r' = b \<and> checksum r' = checksum r2 \<and> sn r' = v"
  using assms
  by (auto simp: ReadRecord_unfold split: prod.splits)

text \<open>
  Claim C1, as amended, at the example record.
\<close>

theorem deep_read_returns_footer_status_witness:
  "\<exists>r' rd'. ReadRecord crc32c_collaborators (Reader_new (mem_file example_record []))
               BlobLogRecord_new kReadLevelHdrFooterKeyBlob kAbsoluteConsistency
             = Inr (OK, r', rd')
           \<and> key r' = [107] \<and> blob r' = [98] \<and> checksum r' = 0 \<and> sn r' = 7"
proof -
  let ?X = crc32c_collaborators
  let ?at = "\<lambda>p. \<lparr>contents = example_record, pos = p, faults = []\<rparr>"
  let ?r2 = "\<lparr>checksum = 0, header_cksum = 0xA12DB32D, key_size = 1, blob_size = 1,
              time_val = 0, ttl_val = 0, sn = 0, type = 0, subtype = 0, key = [], blob = [],
              kbs = 0, bbs = 0\<rparr>"
  have hdr: "file_Read ?X (of_nat BlobLogRecord_kHeaderSize)
               (file_ptr (Reader_new (mem_file example_record []))) = (OK, example_header, ?at 34)"
    by (simp add: eval_simps)
  have dec: "DecodeHeaderFrom (crc_Value ?X) (clear BlobLogRecord_new) example_header
               = (OK, ?r2, [])"
    by (simp add: eval_simps)
  have kr: "file_Read ?X (ucast (key_size ?r2)) (?at 34) = (OK, [107], ?at 35)"
    by (simp add: eval_simps)
  have br: "file_Read ?X (blob_size ?r2) (?at 35) = (OK, [98], ?at 36)"
    by (simp add: eval_simps)
  have fr: "file_Read ?X (of_nat BlobLogRecord_kFooterSize) (?at 36)
              = (OK, [7, 0, 0, 0, 0, 0, 0, 0], ?at 44)"
    by (simp add: eval_simps)
  have sq: "DecodeFixed64 [7, 0, 0, 0, 0, 0, 0, 0] = Some 7"
    by (simp add: eval_simps)
  from deep_read_returns_footer_status [OF hdr dec kr br fr sq, of kAbsoluteConsistency]
  show ?thesis by simp
qed

text \<open>
  Claim C1 as stated fails: the example record stores the payload checksum 0, the
  CRC-32C of its key and blob bytes is 1492376160, and the read at depth
  \<open>kReadLevelHdrFooterKeyBlob\<close> returns \<open>OK\<close> with both spans materialised.
\<close>

theorem payload_checksum_not_verified:
  "ReadRecord crc32c_collaborators (Reader_new (mem_file example_record [])) BlobLogRecord_new
     kReadLevelHdrFooterKeyBlob kAbsoluteConsistency
   = Inr (OK,
          \<lparr>checksum = 0, header_cksum = 0xA12DB32D, key_size = 1, blob_size = 1, time_val = 0,
           ttl_val = 0, sn = 7, type = 0, subtype = 0, key = [107], blob = [98],
           kbs = 1, bbs = 1\<rparr>,
          \<lparr>file_ptr = \<lparr>contents = example_record, pos = 44, faults = []\<rparr>,
           buffer = [7, 0, 0, 0, 0, 0, 0, 0], next_byte = 44\<rparr>)
   \<and> crc32c_Value ([107] @ [98]) = 1492376160"
  by (simp add: eval_simps example_payload_crc)

subsection \<open>Failures of the body reads\<close>

text \<open>
  Claim C5 on the code. The second call on the file (the key read, or the skip at depth
  \<open>kReadLevelHdrFooter\<close>) fails with \<open>IoError\<close> and the following calls succeed:
  \<open>ReadRecord\<close> returns \<open>OK\<close> at every depth, with an empty key and a sequence number
  decoded from the wrong bytes at the deepest one.
\<close>

theorem body_io_failure_lost:
  "file_Read crc32c_collaborators 1 \<lparr>contents = example_record, pos = 34, faults = [True]\<rparr>
     = (IoError, [], \<lparr>contents = example_record, pos = 34, faults = []\<rparr>)
   \<and> file_Skip crc32c_collaborators 2 \<lparr>contents = example_record, pos = 34, faults = [True]\<rparr>
     = (IoError, \<lparr>contents = example_record, pos = 34, faults = []\<rparr>)
   \<and> ReadRecord crc32c_collaborators (Reader_new (mem_file example_record [False, True]))
       BlobLogRecord_new kReadLevelHdrFooterKeyBlob kAbsoluteConsistency
     = Inr (OK,
            \<lparr>checksum = 0, header_cksum = 0xA12DB32D, key_size = 1, blob_size = 1,
             time_val = 0, ttl_val = 0, sn = 1890, type = 0, subtype = 0, key = [],
             blob = [107], kbs = 1, bbs = 1\<rparr>,
            \<lparr>file_ptr = \<lparr>contents = example_record, pos = 43, faults = []\<rparr>,
             buffer = [98, 7, 0, 0, 0, 0, 0, 0], next_byte = 44\<rparr>)
   \<and> map_sum id fst
        (ReadRecord crc32c_collaborators (Reader_new (mem_file example_record [False, True]))
           BlobLogRecord_new kReadLevelHdrFooterKey kAbsoluteConsistency) = Inr OK
   \<and> map_sum id fst
        (ReadRecord crc32c_collaborators (Reader_new (mem_file example_record [False, True]))
           BlobLogRecord_new kReadLevelHdrFooter kAbsoluteConsistency) = Inr OK"
  by (simp add: eval_simps)

subsection \<open>The offset after successful reads\<close>









subsection \<open>Depth equivalence\<close>











end
